theory Spec2Isabelle
  imports Main "HOL-Library.Signed_Division"
begin

section \<open>The operating system as seen from \<^verbatim>\<open>pth.hxx\<close>\<close>

text \<open>
  The header wraps POSIX thread primitives. The primitives themselves are not part of the
  repository, so the model records every call the wrappers issue, with its arguments, in a
  trace, and takes the integer each call returns from a parameter \<open>os\<close> (a function of the
  calls issued so far and of the call itself). Objects that the wrappers reach through
  references or pointers live in a store indexed by address.
\<close>

type_synonym addr = nat

text \<open>\<^verbatim>\<open>pthread_t\<close> is an unsigned integer; the wrapper uses \<^verbatim>\<open>0L\<close> for "no thread".\<close>

type_synonym pthread_t = nat

text \<open>\<^verbatim>\<open>std::timespec\<close>: both fields are signed integers (\<^verbatim>\<open>time_t\<close> and \<^verbatim>\<open>long\<close>).\<close>

record timespec =
  tv_sec :: int
  tv_nsec :: int

text \<open>
  The content of a \<^verbatim>\<open>pthread_mutex_t\<close> is opaque to the wrapper; the wrapper only
  stores it, takes its address, and (in \<^verbatim>\<open>native_handle\<close>) copies it.
\<close>

datatype pthread_mutex_t = Mutex_unlocked | Mutex_locked_by pthread_t

datatype os_call =
    Pthread_join pthread_t "addr option"
  | Pthread_detach pthread_t
  | Pthread_mutex_lock addr
  | Pthread_mutex_unlock addr
  | Pthread_mutex_trylock addr
  | Pthread_rwlock_tryrdlock addr
  | Pthread_rwlock_trywrlock addr
  | Pthread_spin_trylock addr
  | Pthread_cond_wait addr addr
  | Pthread_cond_timedwait addr addr timespec
  | Clock_gettime_realtime

type_synonym os = "os_call list \<Rightarrow> os_call \<Rightarrow> int"

text \<open>The error numbers of \<^verbatim>\<open><cerrno>\<close> that the header names (Linux values).\<close>

definition EBUSY :: int where
  "EBUSY = 16"

definition ETIMEDOUT :: int where
  "ETIMEDOUT = 110"

text \<open>An error number the header does not name, used as a sample of "any other" result.\<close>

definition EINVAL :: int where
  "EINVAL = 22"

text \<open>\<^verbatim>\<open>class thread\<close>: the private members \<^verbatim>\<open>_handle\<close> and \<^verbatim>\<open>_joinable\<close>.\<close>

record thread =
  thr_handle :: pthread_t
  thr_joinable :: bool

text \<open>
  The state of the process: the \<^verbatim>\<open>pth::thread\<close> objects and the \<^verbatim>\<open>pthread_mutex_t\<close>
  objects by address (a \<^verbatim>\<open>pth::mutex\<close> has the single member \<^verbatim>\<open>_handle\<close>, so the
  address of the wrapper is the address of its handle), the first address free for an
  automatic variable, the value of the real-time clock, and the OS calls issued so far
  (oldest first).
\<close>

record world =
  threads :: "addr \<Rightarrow> thread"
  mutexes :: "addr \<Rightarrow> pthread_mutex_t"
  stack_top :: addr
  realtime :: timespec
  trace :: "os_call list"

type_synonym 'a action = "world \<Rightarrow> 'a \<times> world"

definition syscall :: "os \<Rightarrow> os_call \<Rightarrow> int action" where
  "syscall os c w = (os (trace w) c, w\<lparr>trace := trace w @ [c]\<rparr>)"

text \<open>An operand of the macro that is a variable already holding a value.\<close>

definition value_of :: "int \<Rightarrow> int action" where
  "value_of x w = (x, w)"

section \<open>The instrumentation macro \<^verbatim>\<open>ASSERT_EQ0\<close>\<close>

datatype build = Debug | Release

datatype fault = Assertion_failed string

text \<open>
  \<^verbatim>\<open>assert(e)\<close> from \<^verbatim>\<open><cassert>\<close> without \<^verbatim>\<open>NDEBUG\<close>: converts \<open>e\<close> to
  \<^verbatim>\<open>bool\<close>; when the result is false it prints the text of \<open>e\<close> and aborts.
\<close>

definition cxx_assert :: "bool \<Rightarrow> string \<Rightarrow> fault + unit" where
  "cxx_assert e text_of_e = (if e then Inr () else Inl (Assertion_failed text_of_e))"

text \<open>
  The operand the macro hands to \<^verbatim>\<open>assert\<close> is the string literal \<^verbatim>\<open>#X " != 0"\<close>.
  A string literal is an array with static storage: it decays to a pointer to its first
  character, and a pointer converts to \<^verbatim>\<open>bool\<close> by comparison with the null pointer.
\<close>

datatype 'a pointer = Null | Pointer_to 'a

definition string_literal :: "string \<Rightarrow> string pointer" where
  "string_literal s = Pointer_to s"

definition pointer_to_bool :: "'a pointer \<Rightarrow> bool" where
  "pointer_to_bool p = (p \<noteq> Null)"

text \<open>
  \<^verbatim>\<open>
  #if defined NDEBUG
  # define ASSERT_EQ0(X) void(0)
  #else
  # define ASSERT_EQ0(X) \
      ( (X == 0) ? void(0) : []{assert(#X " != 0");}() )
  #endif
  \<close>
  \<open>X\<close> is the operand as a computation, \<open>txt\<close> its source text (\<^verbatim>\<open>#X\<close>). With
  \<^verbatim>\<open>NDEBUG\<close> the expansion does not contain \<open>X\<close>, so the operand is not evaluated.
\<close>

definition ASSERT_EQ0 :: "build \<Rightarrow> string \<Rightarrow> int action \<Rightarrow> (fault + unit) action" where
  "ASSERT_EQ0 b txt X w =
     (case b of
        Release \<Rightarrow> (Inr (), w)
      | Debug \<Rightarrow>
          (let (x, w') = X w
           in if x = 0 then (Inr (), w')
              else (cxx_assert (pointer_to_bool (string_literal (txt @ '' != 0'')))
                      (txt @ '' != 0''), w')))"

text \<open>Statements in sequence: an abort ends the process, nothing after it runs.\<close>

definition and_then :: "(fault + 'a) action \<Rightarrow> ('a \<Rightarrow> (fault + 'b) action) \<Rightarrow> (fault + 'b) action" where
  "and_then m k w = (case m w of (Inl f, w') \<Rightarrow> (Inl f, w') | (Inr x, w') \<Rightarrow> k x w')"

definition done_with :: "'a \<Rightarrow> (fault + 'a) action" where
  "done_with x w = (Inr x, w)"

section \<open>\<^verbatim>\<open>class thread\<close>\<close>

definition set_handle :: "addr \<Rightarrow> pthread_t \<Rightarrow> world \<Rightarrow> world" where
  "set_handle a h w = w\<lparr>threads := (threads w)(a := (threads w a)\<lparr>thr_handle := h\<rparr>)\<rparr>"

definition set_joinable :: "addr \<Rightarrow> bool \<Rightarrow> world \<Rightarrow> world" where
  "set_joinable a j w = w\<lparr>threads := (threads w)(a := (threads w a)\<lparr>thr_joinable := j\<rparr>)\<rparr>"

text \<open>\<^verbatim>\<open>std::exchange(obj, v)\<close> on each member: stores \<open>v\<close>, returns the old value.\<close>

definition exchange_handle :: "addr \<Rightarrow> pthread_t \<Rightarrow> world \<Rightarrow> pthread_t \<times> world" where
  "exchange_handle a h w = (thr_handle (threads w a), set_handle a h w)"

definition exchange_joinable :: "addr \<Rightarrow> bool \<Rightarrow> world \<Rightarrow> bool \<times> world" where
  "exchange_joinable a j w = (thr_joinable (threads w a), set_joinable a j w)"

text \<open>\<^verbatim>\<open>thread() noexcept : _handle(0L), _joinable(false) { }\<close>\<close>

definition thread_default_ctor :: "addr \<Rightarrow> world \<Rightarrow> world" where
  "thread_default_ctor this w =
     w\<lparr>threads := (threads w)(this := \<lparr>thr_handle = 0, thr_joinable = False\<rparr>)\<rparr>"

text \<open>\<^verbatim>\<open>bool joinable() const noexcept { return _joinable; }\<close>\<close>

definition thread_joinable :: "addr \<Rightarrow> world \<Rightarrow> bool" where
  "thread_joinable this w = thr_joinable (threads w this)"

text \<open>\<^verbatim>\<open>::pthread_t native_handle() noexcept { return _handle; }\<close>\<close>

definition thread_native_handle :: "addr \<Rightarrow> world \<Rightarrow> pthread_t" where
  "thread_native_handle this w = thr_handle (threads w this)"

text \<open>
  \<^verbatim>\<open>
  thread(thread&& other) noexcept {
      _handle = std::exchange(other._handle, 0L);
      _joinable = std::exchange(other._joinable, false);
  }
  \<close>
  The move assignment operator has the same two statements and returns \<^verbatim>\<open>*this\<close>.
\<close>

definition thread_move_ctor :: "addr \<Rightarrow> addr \<Rightarrow> world \<Rightarrow> world" where
  "thread_move_ctor this other w =
     (let (h, w1) = exchange_handle other 0 w;
          w2 = set_handle this h w1;
          (j, w3) = exchange_joinable other False w2
      in set_joinable this j w3)"

definition thread_move_assign :: "addr \<Rightarrow> addr \<Rightarrow> world \<Rightarrow> addr \<times> world" where
  "thread_move_assign this other w =
     (let (h, w1) = exchange_handle other 0 w;
          w2 = set_handle this h w1;
          (j, w3) = exchange_joinable other False w2
      in (this, set_joinable this j w3))"

text \<open>
  \<^verbatim>\<open>
  void join(void** retval = nullptr) {
      if ( joinable() ) {
          ASSERT_EQ0( ::pthread_join( _handle, retval) );
          _joinable = false;
      }
  }
  \<close>
\<close>

definition thread_join :: "build \<Rightarrow> os \<Rightarrow> addr \<Rightarrow> addr option \<Rightarrow> (fault + unit) action" where
  "thread_join b os this retval w =
     (if thread_joinable this w
      then and_then
             (ASSERT_EQ0 b ''::pthread_join( _handle, retval)''
                (syscall os (Pthread_join (thr_handle (threads w this)) retval)))
             (\<lambda>_ w'. done_with () (set_joinable this False w')) w
      else done_with () w)"

text \<open>\<^verbatim>\<open>void detach() { ASSERT_EQ0( ::pthread_detach( _handle ) ); }\<close>\<close>

definition thread_detach :: "build \<Rightarrow> os \<Rightarrow> addr \<Rightarrow> (fault + unit) action" where
  "thread_detach b os this w =
     ASSERT_EQ0 b ''::pthread_detach( _handle )''
       (syscall os (Pthread_detach (thr_handle (threads w this)))) w"

text \<open>\<^verbatim>\<open>~thread() { if ( joinable() ) { join(); } }\<close>\<close>

definition thread_dtor :: "build \<Rightarrow> os \<Rightarrow> addr \<Rightarrow> (fault + unit) action" where
  "thread_dtor b os this w =
     (if thread_joinable this w then thread_join b os this None w else done_with () w)"

section \<open>The non-blocking acquisitions of \<^verbatim>\<open>mutex\<close>, \<^verbatim>\<open>rwlock\<close> and \<^verbatim>\<open>spinlock\<close>\<close>

text \<open>
  \<^verbatim>\<open>
  inline bool mutex::trylock() {
      int retval = ::pthread_mutex_trylock( &_handle );
      if ( retval == EBUSY ) return false;
      ASSERT_EQ0( retval );
      return true;
  }
  \<close>
  The other three differ in the primitive they call only.
\<close>

definition mutex_trylock :: "build \<Rightarrow> os \<Rightarrow> addr \<Rightarrow> (fault + bool) action" where
  "mutex_trylock b os this w =
     (let (retval, w1) = syscall os (Pthread_mutex_trylock this) w
      in if retval = EBUSY then done_with False w1
         else and_then (ASSERT_EQ0 b ''retval'' (value_of retval)) (\<lambda>_. done_with True) w1)"

definition rwlock_tryrdlock :: "build \<Rightarrow> os \<Rightarrow> addr \<Rightarrow> (fault + bool) action" where
  "rwlock_tryrdlock b os this w =
     (let (retval, w1) = syscall os (Pthread_rwlock_tryrdlock this) w
      in if retval = EBUSY then done_with False w1
         else and_then (ASSERT_EQ0 b ''retval'' (value_of retval)) (\<lambda>_. done_with True) w1)"

definition rwlock_trywrlock :: "build \<Rightarrow> os \<Rightarrow> addr \<Rightarrow> (fault + bool) action" where
  "rwlock_trywrlock b os this w =
     (let (retval, w1) = syscall os (Pthread_rwlock_trywrlock this) w
      in if retval = EBUSY then done_with False w1
         else and_then (ASSERT_EQ0 b ''retval'' (value_of retval)) (\<lambda>_. done_with True) w1)"

definition spinlock_trylock :: "build \<Rightarrow> os \<Rightarrow> addr \<Rightarrow> (fault + bool) action" where
  "spinlock_trylock b os this w =
     (let (retval, w1) = syscall os (Pthread_spin_trylock this) w
      in if retval = EBUSY then done_with False w1
         else and_then (ASSERT_EQ0 b ''retval'' (value_of retval)) (\<lambda>_. done_with True) w1)"

text \<open>
  \<^verbatim>\<open>void lock() { ASSERT_EQ0( ::pthread_mutex_lock( &_handle ) ); }\<close> and \<^verbatim>\<open>unlock\<close>,
  \<^verbatim>\<open>::pthread_mutex_t native_handle() { return _handle; }\<close> (the handle by value).
\<close>

definition mutex_lock :: "build \<Rightarrow> os \<Rightarrow> addr \<Rightarrow> (fault + unit) action" where
  "mutex_lock b os this w =
     ASSERT_EQ0 b ''::pthread_mutex_lock( &_handle )'' (syscall os (Pthread_mutex_lock this)) w"

definition mutex_unlock :: "build \<Rightarrow> os \<Rightarrow> addr \<Rightarrow> (fault + unit) action" where
  "mutex_unlock b os this w =
     ASSERT_EQ0 b ''::pthread_mutex_unlock( &_handle )'' (syscall os (Pthread_mutex_unlock this)) w"

definition mutex_native_handle :: "addr \<Rightarrow> world \<Rightarrow> pthread_mutex_t" where
  "mutex_native_handle this w = mutexes w this"

section \<open>\<^verbatim>\<open>class cond_var\<close>\<close>

text \<open>
  An automatic variable of type \<^verbatim>\<open>pthread_mutex_t\<close>, initialised with \<open>v\<close>: it takes the
  first free address of the stack. Leaving the function gives the address back.
\<close>

definition local_mutex :: "pthread_mutex_t \<Rightarrow> world \<Rightarrow> addr \<times> world" where
  "local_mutex v w =
     (stack_top w, w\<lparr>mutexes := (mutexes w)(stack_top w := v), stack_top := Suc (stack_top w)\<rparr>)"

definition leave_scope :: "addr \<Rightarrow> world \<Rightarrow> world" where
  "leave_scope old_top w = w\<lparr>stack_top := old_top\<rparr>"

text \<open>
  \<^verbatim>\<open>
  inline void cond_var::wait( mutex& mtx ) {
      ::pthread_mutex_t nh = mtx.native_handle();
      ASSERT_EQ0( ::pthread_cond_wait( &_handle, &nh ) );
  }
  \<close>
\<close>

definition cond_var_wait :: "build \<Rightarrow> os \<Rightarrow> addr \<Rightarrow> addr \<Rightarrow> (fault + unit) action" where
  "cond_var_wait b os this mtx w =
     (let (nh, w1) = local_mutex (mutex_native_handle mtx w) w;
          (r, w2) = ASSERT_EQ0 b ''::pthread_cond_wait( &_handle, &nh )''
                      (syscall os (Pthread_cond_wait this nh)) w1
      in (r, leave_scope (stack_top w) w2))"

text \<open>
  \<^verbatim>\<open>long\<close> and \<^verbatim>\<open>time_t\<close> are 64-bit two's-complement integers. \<open>is_long\<close> is their
  range, and \<open>wrap_long\<close> is the value an arithmetic result takes in them: a result outside
  the range wraps around (\<open>LONG_MAX + 1\<close> is \<open>LONG_MIN\<close>).
\<close>

definition is_long :: "int \<Rightarrow> bool" where
  "is_long x = (- (2 ^ 63) \<le> x \<and> x < 2 ^ 63)"

definition wrap_long :: "int \<Rightarrow> int" where
  "wrap_long x = (x + 2 ^ 63) mod 2 ^ 64 - 2 ^ 63"

text \<open>
  The operators of C++ on \<^verbatim>\<open>long\<close>. \<^verbatim>\<open>/\<close> and \<^verbatim>\<open>%\<close> truncate towards zero
  (\<open>sdiv\<close>, \<open>smod\<close>).
\<close>

definition long_add :: "int \<Rightarrow> int \<Rightarrow> int" where
  "long_add a b = wrap_long (a + b)"

definition long_sub :: "int \<Rightarrow> int \<Rightarrow> int" where
  "long_sub a b = wrap_long (a - b)"

definition long_mul :: "int \<Rightarrow> int \<Rightarrow> int" where
  "long_mul a b = wrap_long (a * b)"

definition long_div :: "int \<Rightarrow> int \<Rightarrow> int" where
  "long_div a b = wrap_long (a sdiv b)"

definition long_rem :: "int \<Rightarrow> int \<Rightarrow> int" where
  "long_rem a b = wrap_long (a smod b)"

text \<open>
  The deadline of \<^verbatim>\<open>timedwait\<close>.
  \<^verbatim>\<open>
  constexpr long NS_PER_SEC = 1000000000L;
  abstime.tv_sec  =  now.tv_sec  + nsec / NS_PER_SEC;
  abstime.tv_nsec =  now.tv_nsec + nsec % NS_PER_SEC;
  long over = abstime.tv_nsec / NS_PER_SEC;
  if ( abstime.tv_nsec / NS_PER_SEC ) {
      abstime.tv_nsec -= over * NS_PER_SEC;
      abstime.tv_sec  += over;
  }
  \<close>
\<close>

definition NS_PER_SEC :: int where
  "NS_PER_SEC = 1000000000"

definition timedwait_abstime :: "timespec \<Rightarrow> int \<Rightarrow> timespec" where
  "timedwait_abstime now nsec =
     (let abstime = \<lparr>tv_sec = long_add (tv_sec now) (long_div nsec NS_PER_SEC),
                     tv_nsec = long_add (tv_nsec now) (long_rem nsec NS_PER_SEC)\<rparr>;
          over = long_div (tv_nsec abstime) NS_PER_SEC
      in if long_div (tv_nsec abstime) NS_PER_SEC \<noteq> 0
         then abstime\<lparr>tv_nsec := long_sub (tv_nsec abstime) (long_mul over NS_PER_SEC),
                      tv_sec := long_add (tv_sec abstime) over\<rparr>
         else abstime)"

text \<open>
  \<^verbatim>\<open>
  inline int cond_var::timedwait( mutex& mtx, long nsec ) {
      std::timespec now, abstime;
      ::clock_gettime( CLOCK_REALTIME, &now );
      ... (the deadline, above)
      ::pthread_mutex_t nh = mtx.native_handle();
      int retval = ::pthread_cond_timedwait( &_handle, &nh, &abstime );
      if ( retval == ETIMEDOUT ) return ETIMEDOUT;
      ASSERT_EQ0( retval );
      return 0;
  }
  \<close>
  The result of \<^verbatim>\<open>clock_gettime\<close> is not looked at.
\<close>

definition cond_var_timedwait :: "build \<Rightarrow> os \<Rightarrow> addr \<Rightarrow> addr \<Rightarrow> int \<Rightarrow> (fault + int) action" where
  "cond_var_timedwait b os this mtx nsec w =
     (let (_, w1) = syscall os Clock_gettime_realtime w;
          now = realtime w1;
          abstime = timedwait_abstime now nsec;
          (nh, w2) = local_mutex (mutex_native_handle mtx w1) w1;
          (retval, w3) = syscall os (Pthread_cond_timedwait this nh abstime) w2;
          (r, w4) = (if retval = ETIMEDOUT then done_with ETIMEDOUT w3
                     else and_then (ASSERT_EQ0 b ''retval'' (value_of retval))
                            (\<lambda>_. done_with 0) w3)
      in (r, leave_scope (stack_top w) w4))"

section \<open>Sample OS behaviours and process states\<close>

text \<open>An OS whose primitives all return \<open>r\<close> (reading the clock succeeds).\<close>

definition os_returning :: "int \<Rightarrow> os" where
  "os_returning r = (\<lambda>_ c. if c = Clock_gettime_realtime then 0 else r)"

text \<open>
  No thread objects constructed with a thread, every mutex unlocked, the stack free from
  address 2 on, the clock at 100.999999999 s, no OS call issued yet.
\<close>

definition idle_world :: world where
  "idle_world =
     \<lparr>threads = (\<lambda>_. \<lparr>thr_handle = 0, thr_joinable = False\<rparr>),
      mutexes = (\<lambda>_. Mutex_unlocked),
      stack_top = 2,
      realtime = \<lparr>tv_sec = 100, tv_nsec = 999999999\<rparr>,
      trace = []\<rparr>"

text \<open>The \<^verbatim>\<open>pth::mutex\<close> at address 0 is held by thread 7; a \<^verbatim>\<open>cond_var\<close> is at address 1.\<close>

definition held_world :: world where
  "held_world = idle_world\<lparr>mutexes := (mutexes idle_world)(0 := Mutex_locked_by 7)\<rparr>"

text \<open>Two \<^verbatim>\<open>pth::thread\<close> objects, at addresses 0 and 1, own the joinable threads 7 and 9.\<close>

definition running_world :: world where
  "running_world =
     idle_world\<lparr>threads := (threads idle_world)
                   (0 := \<lparr>thr_handle = 7, thr_joinable = True\<rparr>,
                    1 := \<lparr>thr_handle = 9, thr_joinable = True\<rparr>)\<rparr>"

text \<open>The clock at 100.000000005 s.\<close>

definition early_world :: world where
  "early_world = idle_world\<lparr>realtime := \<lparr>tv_sec = 100, tv_nsec = 5\<rparr>\<rparr>"

section \<open>Properties of the macro\<close>

lemma ASSERT_EQ0_Release: "ASSERT_EQ0 Release txt X w = (Inr (), w)"
  by (simp add: ASSERT_EQ0_def)

lemma ASSERT_EQ0_Debug: "ASSERT_EQ0 Debug txt X w = (Inr (), snd (X w))"
  by (simp add: ASSERT_EQ0_def cxx_assert_def pointer_to_bool_def string_literal_def
      split: prod.split)

lemma ASSERT_EQ0_value_of: "ASSERT_EQ0 b txt (value_of x) w = (Inr (), w)"
  by (cases b) (simp_all add: ASSERT_EQ0_Release ASSERT_EQ0_Debug value_of_def)

text \<open>
  C2. In a debug build a non-zero result of the wrapped call makes the check abort with a
  diagnostic naming the call. The code does not: at the result \<open>EINVAL\<close> the macro takes
  its second branch, whose \<^verbatim>\<open>assert\<close> tests a string literal, and goes on; so does a
  wrapped \<^verbatim>\<open>pthread_mutex_lock\<close> that returns \<open>EINVAL\<close>, and \<^verbatim>\<open>trylock\<close> returns
  true on that result.
\<close>

theorem ASSERT_EQ0_debug_nonzero_goes_on:
  "EINVAL \<noteq> 0 \<and> EINVAL \<noteq> EBUSY \<and>
   ASSERT_EQ0 Debug ''retval'' (value_of EINVAL) idle_world = (Inr (), idle_world) \<and>
   mutex_lock Debug (os_returning EINVAL) 0 idle_world =
     (Inr (), idle_world\<lparr>trace := [Pthread_mutex_lock 0]\<rparr>) \<and>
   mutex_trylock Debug (os_returning EINVAL) 0 idle_world =
     (Inr True, idle_world\<lparr>trace := [Pthread_mutex_trylock 0]\<rparr>)"
  by (simp add: EINVAL_def EBUSY_def ASSERT_EQ0_def value_of_def cxx_assert_def
      pointer_to_bool_def string_literal_def mutex_lock_def mutex_trylock_def syscall_def
      and_then_def done_with_def os_returning_def idle_world_def)

section \<open>Ownership of threads\<close>

lemma thread_move_ctor_eq:
  "this \<noteq> other \<Longrightarrow>
   thread_move_ctor this other w =
     w\<lparr>threads := (threads w)(this := threads w other,
                             other := \<lparr>thr_handle = 0, thr_joinable = False\<rparr>)\<rparr>"
  by (auto simp add: thread_move_ctor_def exchange_handle_def exchange_joinable_def
      set_handle_def set_joinable_def fun_eq_iff)

lemma thread_move_assign_eq:
  "thread_move_assign this other w = (this, thread_move_ctor this other w)"
  by (simp add: thread_move_assign_def thread_move_ctor_def split: prod.split)

text \<open>Moving an object onto itself changes nothing: the source is the destination.\<close>

lemma thread_move_assign_self:
  "thread_move_assign this this w = (this, w)"
  by (simp add: thread_move_assign_def exchange_handle_def exchange_joinable_def
      set_handle_def set_joinable_def fun_eq_iff)

lemma thread_join_Debug:
  "thread_joinable this w \<Longrightarrow>
   thread_join Debug os this retval w =
     (Inr (), set_joinable this False
                (w\<lparr>trace := trace w @ [Pthread_join (thr_handle (threads w this)) retval]\<rparr>))"
  by (simp add: thread_join_def and_then_def ASSERT_EQ0_Debug syscall_def done_with_def)

lemma thread_join_Release:
  "thread_joinable this w \<Longrightarrow>
   thread_join Release os this retval w = (Inr (), set_joinable this False w)"
  by (simp add: thread_join_def and_then_def ASSERT_EQ0_Release done_with_def)

lemma thread_dtor_not_joinable:
  "\<not> thr_joinable (threads w this) \<Longrightarrow> thread_dtor b os this w = (Inr (), w)"
  by (simp add: thread_dtor_def thread_joinable_def done_with_def)

text \<open>
  C6. Move construction and move assignment (between two objects) give the destination
  the handle and the joinable flag of the source and leave the source with handle 0 and
  flag false; nothing else changes, and destroying the moved-from object does nothing.
\<close>

theorem thread_move_transfers_and_resets:
  assumes "this \<noteq> other"
  shows "thread_move_ctor this other w =
           w\<lparr>threads := (threads w)(this := threads w other,
                                   other := \<lparr>thr_handle = 0, thr_joinable = False\<rparr>)\<rparr> \<and>
         thread_move_assign this other w =
           (this, w\<lparr>threads := (threads w)(this := threads w other,
                                   other := \<lparr>thr_handle = 0, thr_joinable = False\<rparr>)\<rparr>) \<and>
         thread_dtor b os other (thread_move_ctor this other w) =
           (Inr (), thread_move_ctor this other w) \<and>
         thread_dtor b os other (snd (thread_move_assign this other w)) =
           (Inr (), snd (thread_move_assign this other w))"
proof -
  have moved: "\<not> thr_joinable (threads (thread_move_ctor this other w) other)"
    using assms by (simp add: thread_move_ctor_eq)
  show ?thesis
    using assms moved
    by (simp add: thread_move_assign_eq thread_dtor_not_joinable) (simp add: thread_move_ctor_eq)
qed

theorem thread_move_transfers_and_resets_witness:
  "(1::addr) \<noteq> 0 \<and>
   threads (thread_move_ctor 1 0 running_world) 1 = \<lparr>thr_handle = 7, thr_joinable = True\<rparr> \<and>
   threads (thread_move_ctor 1 0 running_world) 0 = \<lparr>thr_handle = 0, thr_joinable = False\<rparr> \<and>
   threads (snd (thread_move_assign 1 0 running_world)) 1 =
     \<lparr>thr_handle = 7, thr_joinable = True\<rparr> \<and>
   threads (snd (thread_move_assign 1 0 running_world)) 0 =
     \<lparr>thr_handle = 0, thr_joinable = False\<rparr> \<and>
   trace (snd (thread_dtor Debug (os_returning 0) 0 (thread_move_ctor 1 0 running_world))) = [] \<and>
   trace (snd (thread_dtor Debug (os_returning 0) 0
                 (snd (thread_move_assign 1 0 running_world)))) = []"
proof -
  have distinct: "(1::addr) \<noteq> 0" by simp
  note moved = thread_move_transfers_and_resets
    [of 1 0 running_world Debug "os_returning 0", OF distinct]
  show ?thesis
    unfolding moved [THEN conjunct2, THEN conjunct2, THEN conjunct1]
      moved [THEN conjunct2, THEN conjunct2, THEN conjunct2]
    unfolding moved [THEN conjunct1] moved [THEN conjunct2, THEN conjunct1]
    by (simp add: running_world_def idle_world_def)
qed

text \<open>
  C7. \<^verbatim>\<open>join()\<close> on an object that is not joinable issues no OS call, raises nothing and
  leaves the object (and everything else) as it was.
\<close>

theorem thread_join_not_joinable_noop:
  "\<not> thread_joinable this w \<Longrightarrow> thread_join b os this retval w = (Inr (), w)"
  by (simp add: thread_join_def done_with_def)

theorem thread_join_not_joinable_noop_witness:
  "\<not> thread_joinable 3 (thread_default_ctor 3 running_world) \<and>
   thread_join Debug (os_returning EINVAL) 3 None (thread_default_ctor 3 running_world) =
     (Inr (), thread_default_ctor 3 running_world)"
  using thread_join_not_joinable_noop
    [of 3 "thread_default_ctor 3 running_world" Debug "os_returning EINVAL" None]
  by (simp add: thread_joinable_def thread_default_ctor_def)

text \<open>
  C8. \<^verbatim>\<open>detach()\<close> leaves every thread object as it was, so \<^verbatim>\<open>joinable()\<close> reports
  what it reported before. An object that was joinable therefore still runs \<^verbatim>\<open>join()\<close>
  when it is destroyed; in a debug build, after a successful detach, the OS sees
  \<^verbatim>\<open>pthread_detach\<close> and then \<^verbatim>\<open>pthread_join\<close> on the same handle.
\<close>

theorem thread_detach_keeps_joinable:
  "threads (snd (thread_detach b os this w)) = threads w \<and>
   thread_joinable this (snd (thread_detach b os this w)) = thread_joinable this w \<and>
   (thread_joinable this w \<longrightarrow>
      thread_dtor b os this (snd (thread_detach b os this w)) =
        thread_join b os this None (snd (thread_detach b os this w))) \<and>
   (thread_joinable this w \<and> os (trace w) (Pthread_detach (thr_handle (threads w this))) = 0 \<longrightarrow>
      trace (snd (thread_dtor Debug os this (snd (thread_detach Debug os this w)))) =
        trace w @ [Pthread_detach (thr_handle (threads w this)),
                   Pthread_join (thr_handle (threads w this)) None])"
proof -
  have same: "threads (snd (thread_detach b os this w)) = threads w"
    by (cases b) (simp_all add: thread_detach_def ASSERT_EQ0_Release ASSERT_EQ0_Debug syscall_def)
  have debug: "snd (thread_detach Debug os this w) =
                 w\<lparr>trace := trace w @ [Pthread_detach (thr_handle (threads w this))]\<rparr>"
    by (simp add: thread_detach_def ASSERT_EQ0_Debug syscall_def)
  have later: "trace (snd (thread_dtor Debug os this (snd (thread_detach Debug os this w)))) =
                 trace w @ [Pthread_detach (thr_handle (threads w this)),
                            Pthread_join (thr_handle (threads w this)) None]"
    if "thread_joinable this w"
    using that
    by (simp add: debug thread_dtor_def thread_joinable_def thread_join_Debug set_joinable_def)
  show ?thesis
    using same later by (simp add: thread_joinable_def thread_dtor_def)
qed

theorem thread_detach_keeps_joinable_witness:
  "thread_joinable 0 running_world \<and>
   os_returning 0 (trace running_world) (Pthread_detach (thr_handle (threads running_world 0))) = 0 \<and>
   thread_joinable 0 (snd (thread_detach Debug (os_returning 0) 0 running_world)) \<and>
   trace (snd (thread_dtor Debug (os_returning 0) 0
                 (snd (thread_detach Debug (os_returning 0) 0 running_world)))) =
     [Pthread_detach 7, Pthread_join 7 None]"
proof -
  have before: "thread_joinable 0 running_world"
    by (simp add: thread_joinable_def running_world_def idle_world_def)
  have ok: "os_returning 0 (trace running_world)
              (Pthread_detach (thr_handle (threads running_world 0))) = 0"
    by (simp add: os_returning_def)
  have handle: "thr_handle (threads running_world 0) = 7" "trace running_world = []"
    by (simp_all add: running_world_def idle_world_def)
  note kept = thread_detach_keeps_joinable [of Debug "os_returning 0" 0 running_world]
  from kept before have after: "thread_joinable 0 (snd (thread_detach Debug (os_returning 0) 0 running_world))"
    by simp
  from kept before ok
  have "trace (snd (thread_dtor Debug (os_returning 0) 0
                      (snd (thread_detach Debug (os_returning 0) 0 running_world)))) =
          trace running_world @ [Pthread_detach (thr_handle (threads running_world 0)),
                                 Pthread_join (thr_handle (threads running_world 0)) None]"
    by blast
  then show ?thesis
    using before ok after by (simp add: handle)
qed

text \<open>
  C9. Move assignment onto an object that owns a joinable thread issues no OS call: the
  thread owned before is neither joined nor detached. The destination takes over the
  source's handle and flag, and when both objects are destroyed afterwards the only join
  ever issued is the one for the source's thread (and none at all with \<^verbatim>\<open>NDEBUG\<close>).
\<close>

theorem thread_move_assign_abandons_previous:
  assumes "this \<noteq> other" and "thread_joinable this w"
  shows "trace (snd (thread_move_assign this other w)) = trace w \<and>
         threads (snd (thread_move_assign this other w)) this = threads w other \<and>
         trace (snd (thread_dtor b os other
                       (snd (thread_dtor b os this (snd (thread_move_assign this other w)))))) =
           trace w @ (if b = Debug \<and> thr_joinable (threads w other)
                      then [Pthread_join (thr_handle (threads w other)) None] else [])"
proof -
  define w1 where "w1 = snd (thread_move_assign this other w)"
  have w1: "w1 = w\<lparr>threads := (threads w)(this := threads w other,
                                         other := \<lparr>thr_handle = 0, thr_joinable = False\<rparr>)\<rparr>"
    using assms(1) by (simp add: w1_def thread_move_assign_eq thread_move_ctor_eq)
  define w2 where "w2 = snd (thread_dtor b os this w1)"
  have src: "\<not> thr_joinable (threads w2 other)"
    using assms(1)
    by (cases b)
      (simp_all add: w2_def w1 thread_dtor_def thread_joinable_def thread_join_Debug
        thread_join_Release set_joinable_def done_with_def)
  have tr: "trace w2 = trace w @ (if b = Debug \<and> thr_joinable (threads w other)
                                   then [Pthread_join (thr_handle (threads w other)) None] else [])"
    using assms(1)
    by (cases b)
      (simp_all add: w2_def w1 thread_dtor_def thread_joinable_def thread_join_Debug
        thread_join_Release set_joinable_def done_with_def)
  have last: "trace (snd (thread_dtor b os other w2)) = trace w2"
    using src by (simp add: thread_dtor_not_joinable)
  have "trace w1 = trace w" and "threads w1 this = threads w other"
    using assms(1) by (simp_all add: w1)
  then show ?thesis
    using tr last by (simp add: w2_def w1_def)
qed

theorem thread_move_assign_abandons_previous_witness:
  "(0::addr) \<noteq> 1 \<and> thread_joinable 0 running_world \<and>
   thread_native_handle 0 running_world = 7 \<and>
   trace (snd (thread_move_assign 0 1 running_world)) = [] \<and>
   threads (snd (thread_move_assign 0 1 running_world)) 0 = \<lparr>thr_handle = 9, thr_joinable = True\<rparr> \<and>
   trace (snd (thread_dtor Debug (os_returning 0) 1
                 (snd (thread_dtor Debug (os_returning 0) 0
                         (snd (thread_move_assign 0 1 running_world)))))) =
     [Pthread_join 9 None]"
proof -
  have distinct: "(0::addr) \<noteq> 1" by simp
  have owns: "thread_joinable 0 running_world"
    by (simp add: thread_joinable_def running_world_def idle_world_def)
  note abandoned = thread_move_assign_abandons_previous
    [of 0 1 running_world Debug "os_returning 0", OF distinct owns]
  show ?thesis
    unfolding abandoned [THEN conjunct1] abandoned [THEN conjunct2, THEN conjunct1]
      abandoned [THEN conjunct2, THEN conjunct2]
    by (simp add: thread_joinable_def thread_native_handle_def running_world_def idle_world_def)
qed

section \<open>The deadline of \<^verbatim>\<open>timedwait\<close>\<close>

lemma sdiv_nonneg: "0 \<le> a \<Longrightarrow> 0 < b \<Longrightarrow> (a::int) sdiv b = a div b"
  by (cases "a = 0") (simp_all add: signed_divide_int_def)

lemma smod_nonneg: "0 \<le> a \<Longrightarrow> 0 < b \<Longrightarrow> (a::int) smod b = a mod b"
  by (cases "a = 0") (simp_all add: signed_modulo_int_def)

lemma sdiv_neg: "a < 0 \<Longrightarrow> 0 < b \<Longrightarrow> (a::int) sdiv b = - ((- a) div b)"
  by (simp add: signed_divide_int_def)

lemma smod_neg: "a < 0 \<Longrightarrow> 0 < b \<Longrightarrow> (a::int) smod b = - ((- a) mod b)"
  by (simp add: signed_modulo_int_def)

lemma sdiv_within: "- b < a \<Longrightarrow> a < b \<Longrightarrow> (a::int) sdiv b = 0"
  by (simp add: signed_divide_int_def div_pos_pos_trivial abs_less_iff)

lemma NS_PER_SEC_pos: "0 < NS_PER_SEC"
  by (simp add: NS_PER_SEC_def)

text \<open>The calls \<^verbatim>\<open>timedwait\<close> issues: the clock, then the wait with the computed deadline.\<close>

lemma cond_var_timedwait_trace:
  "trace (snd (cond_var_timedwait b os this mtx nsec w)) =
     trace w @ [Clock_gettime_realtime,
                Pthread_cond_timedwait this (stack_top w) (timedwait_abstime (realtime w) nsec)]"
  by (simp add: cond_var_timedwait_def syscall_def local_mutex_def leave_scope_def
      done_with_def and_then_def ASSERT_EQ0_value_of Let_def split: prod.split)

lemma wrap_long_id: "is_long x \<Longrightarrow> wrap_long x = x"
  by (simp add: is_long_def wrap_long_def mod_pos_pos_trivial)

text \<open>
  For a duration that is a \<^verbatim>\<open>long\<close> and a clock reading between 0 and \<open>2^62\<close> seconds
  with a nanosecond field below one second, no step of the computation wraps around: the
  deadline is the pair of sums, with at most one second carried.
\<close>

lemma timedwait_abstime_in_range:
  assumes "is_long nsec" and "0 \<le> tv_nsec now" and "tv_nsec now < NS_PER_SEC"
    and "0 \<le> tv_sec now" and "tv_sec now < 2 ^ 62"
  shows "timedwait_abstime now nsec =
           \<lparr>tv_sec = tv_sec now + nsec sdiv NS_PER_SEC
                        + (tv_nsec now + nsec smod NS_PER_SEC) sdiv NS_PER_SEC,
            tv_nsec = tv_nsec now + nsec smod NS_PER_SEC
                        - (tv_nsec now + nsec smod NS_PER_SEC) sdiv NS_PER_SEC * NS_PER_SEC\<rparr>"
proof -
  note pos = NS_PER_SEC_pos
  define q where "q = nsec sdiv NS_PER_SEC"
  define r where "r = nsec smod NS_PER_SEC"
  define t where "t = tv_nsec now + r"
  define c where "c = t sdiv NS_PER_SEC"
  have q: "- (2 ^ 34) < q \<and> q < 2 ^ 34"
  proof (cases "0 \<le> nsec")
    case True
    then have "nsec div NS_PER_SEC \<le> 2 ^ 63 div NS_PER_SEC"
      using assms(1) pos by (intro zdiv_mono1) (simp_all add: is_long_def)
    moreover have "0 \<le> nsec div NS_PER_SEC"
      using True pos by (simp add: pos_imp_zdiv_nonneg_iff)
    ultimately show ?thesis
      using True pos by (simp add: q_def sdiv_nonneg) (simp add: NS_PER_SEC_def)
  next
    case False
    then have "(- nsec) div NS_PER_SEC \<le> 2 ^ 63 div NS_PER_SEC"
      using assms(1) pos by (intro zdiv_mono1) (simp_all add: is_long_def)
    moreover have "0 \<le> (- nsec) div NS_PER_SEC"
      using False pos by (simp add: pos_imp_zdiv_nonneg_iff)
    ultimately show ?thesis
      using False pos by (simp add: q_def sdiv_neg) (simp add: NS_PER_SEC_def)
  qed
  have r: "- NS_PER_SEC < r \<and> r < NS_PER_SEC"
    using smod_int_range [of NS_PER_SEC nsec] pos by (simp add: r_def)
  have t: "- NS_PER_SEC < t \<and> t < 2 * NS_PER_SEC"
    using r assms by (simp add: t_def)
  have c: "c = 0 \<or> c = 1"
  proof (cases "t < NS_PER_SEC")
    case True
    then show ?thesis using t by (simp add: c_def sdiv_within)
  next
    case False
    then have "t div NS_PER_SEC = 1"
      using t pos by (simp add: int_div_pos_eq [where r = "t - NS_PER_SEC"])
    then show ?thesis using False pos by (simp add: c_def sdiv_nonneg)
  qed
  have big: "(2::int) ^ 34 + 2 < 2 ^ 62" "(2::int) ^ 62 + 2 ^ 34 + 1 < 2 ^ 63"
    "2 * NS_PER_SEC < 2 ^ 63" "- (2 ^ 63) < - NS_PER_SEC"
    by (simp_all add: NS_PER_SEC_def)
  have s1: "long_div nsec NS_PER_SEC = q"
    using q big by (simp add: long_div_def q_def [symmetric] wrap_long_id is_long_def)
  have s2: "long_add (tv_sec now) q = tv_sec now + q"
    using q big assms(4,5) by (simp add: long_add_def wrap_long_id is_long_def)
  have s3: "long_rem nsec NS_PER_SEC = r"
    using r big by (simp add: long_rem_def r_def [symmetric] wrap_long_id is_long_def)
  have s4: "long_add (tv_nsec now) r = t"
    using t big by (simp add: long_add_def t_def [symmetric] wrap_long_id is_long_def)
  have s5: "long_div t NS_PER_SEC = c"
    using c by (auto simp add: long_div_def c_def [symmetric] wrap_long_id is_long_def)
  have s6: "long_mul c NS_PER_SEC = c * NS_PER_SEC"
    using c by (auto simp add: long_mul_def wrap_long_id is_long_def NS_PER_SEC_def)
  have s7: "long_sub t (c * NS_PER_SEC) = t - c * NS_PER_SEC"
    using c t big by (auto simp add: long_sub_def wrap_long_id is_long_def)
  have s8: "long_add (tv_sec now + q) c = tv_sec now + q + c"
    using c q big assms(4,5) by (auto simp add: long_add_def wrap_long_id is_long_def)
  have "timedwait_abstime now nsec =
          \<lparr>tv_sec = tv_sec now + q + c, tv_nsec = t - c * NS_PER_SEC\<rparr>"
    by (simp add: timedwait_abstime_def Let_def s1 s2 s3 s4 s5 s6 s7 s8)
  then show ?thesis
    by (simp add: c_def t_def r_def q_def)
qed

lemma timedwait_abstime_nonneg:
  assumes "0 \<le> nsec" and "is_long nsec"
    and "0 \<le> tv_nsec now" and "tv_nsec now < NS_PER_SEC"
    and "0 \<le> tv_sec now" and "tv_sec now < 2 ^ 62"
  shows "0 \<le> tv_nsec (timedwait_abstime now nsec) \<and>
         tv_nsec (timedwait_abstime now nsec) < NS_PER_SEC \<and>
         tv_sec (timedwait_abstime now nsec) * NS_PER_SEC + tv_nsec (timedwait_abstime now nsec)
           = tv_sec now * NS_PER_SEC + tv_nsec now + nsec"
proof -
  note pos = NS_PER_SEC_pos
  define q where "q = nsec div NS_PER_SEC"
  define r where "r = nsec mod NS_PER_SEC"
  define t where "t = tv_nsec now + r"
  have r0: "0 \<le> r" and r1: "r < NS_PER_SEC"
    using pos by (simp_all add: r_def)
  have parts: "nsec = q * NS_PER_SEC + r"
    by (simp add: q_def r_def)
  have t0: "0 \<le> t" and t2: "t < 2 * NS_PER_SEC"
    using assms r0 r1 by (unfold t_def) linarith+
  have start: "nsec sdiv NS_PER_SEC = q" "nsec smod NS_PER_SEC = r"
    using assms(1) pos by (simp_all add: sdiv_nonneg smod_nonneg q_def r_def)
  have over: "(tv_nsec now + r) sdiv NS_PER_SEC = t div NS_PER_SEC"
    using t0 pos by (simp add: sdiv_nonneg t_def)
  have exact: "timedwait_abstime now nsec =
                 \<lparr>tv_sec = tv_sec now + q + t div NS_PER_SEC,
                  tv_nsec = t - t div NS_PER_SEC * NS_PER_SEC\<rparr>"
    using timedwait_abstime_in_range [OF assms(2-6)]
    by (simp add: start over) (simp add: t_def)
  have fields: "tv_sec (timedwait_abstime now nsec) = tv_sec now + q + t div NS_PER_SEC"
    "tv_nsec (timedwait_abstime now nsec) = t - t div NS_PER_SEC * NS_PER_SEC"
    by (simp_all add: exact)
  show ?thesis
  proof (cases "t < NS_PER_SEC")
    case True
    then have "t div NS_PER_SEC = 0"
      using t0 by (simp add: div_pos_pos_trivial)
    then show ?thesis
      unfolding fields using True t0 parts by (simp add: t_def algebra_simps)
  next
    case False
    then have "t div NS_PER_SEC = 1"
      using t2 pos by (simp add: int_div_pos_eq [where r = "t - NS_PER_SEC"])
    then show ?thesis
      unfolding fields using False t2 parts by (simp add: t_def algebra_simps)
  qed
qed

lemma timedwait_abstime_negative:
  assumes "nsec < 0" and "is_long nsec"
    and "0 \<le> tv_nsec now" and "tv_nsec now < NS_PER_SEC"
    and "0 \<le> tv_sec now" and "tv_sec now < 2 ^ 62"
  shows "timedwait_abstime now nsec =
           \<lparr>tv_sec = tv_sec now + nsec sdiv NS_PER_SEC,
            tv_nsec = tv_nsec now + nsec smod NS_PER_SEC\<rparr>"
proof -
  note pos = NS_PER_SEC_pos
  have r: "nsec smod NS_PER_SEC = - ((- nsec) mod NS_PER_SEC)"
    using assms(1) pos by (rule smod_neg)
  have "0 \<le> (- nsec) mod NS_PER_SEC" "(- nsec) mod NS_PER_SEC < NS_PER_SEC"
    using pos by simp_all
  then have "- NS_PER_SEC < tv_nsec now + nsec smod NS_PER_SEC"
    and "tv_nsec now + nsec smod NS_PER_SEC < NS_PER_SEC"
    using assms r by linarith+
  then have "(tv_nsec now + nsec smod NS_PER_SEC) sdiv NS_PER_SEC = 0"
    by (rule sdiv_within)
  then show ?thesis
    using timedwait_abstime_in_range [OF assms(2-6)] by simp
qed

lemma timedwait_abstime_carry_example:
  "timedwait_abstime \<lparr>tv_sec = 100, tv_nsec = 999999999\<rparr> 2 = \<lparr>tv_sec = 101, tv_nsec = 1\<rparr>"
  by (simp add: timedwait_abstime_def long_add_def long_sub_def long_mul_def long_div_def
      long_rem_def wrap_long_def NS_PER_SEC_def signed_divide_int_def signed_modulo_int_def)

text \<open>
  Outside that range the 64-bit arithmetic wraps: one nanosecond after the last
  representable second the deadline's seconds are \<open>LONG_MIN\<close>.
\<close>

lemma timedwait_abstime_wraps_example:
  "timedwait_abstime \<lparr>tv_sec = 2 ^ 63 - 1, tv_nsec = 999999999\<rparr> 1 =
     \<lparr>tv_sec = - (2 ^ 63), tv_nsec = 0\<rparr>"
  by (simp add: timedwait_abstime_def long_add_def long_sub_def long_mul_def long_div_def
      long_rem_def wrap_long_def NS_PER_SEC_def signed_divide_int_def signed_modulo_int_def)

text \<open>
  C3. For a nonnegative duration (a \<^verbatim>\<open>long\<close>) and a clock reading between 0 and \<open>2^62\<close>
  seconds whose nanosecond field is below one second, the deadline handed to
  \<^verbatim>\<open>pthread_cond_timedwait\<close> is the clock reading plus the duration, with a nanosecond
  field from 0 up to, not including, one second.
\<close>

theorem timedwait_deadline_normalised:
  assumes "0 \<le> nsec" and "is_long nsec"
    and "0 \<le> tv_nsec (realtime w)" and "tv_nsec (realtime w) < NS_PER_SEC"
    and "0 \<le> tv_sec (realtime w)" and "tv_sec (realtime w) < 2 ^ 62"
  shows "trace (snd (cond_var_timedwait b os this mtx nsec w)) =
           trace w @ [Clock_gettime_realtime,
                      Pthread_cond_timedwait this (stack_top w)
                        (timedwait_abstime (realtime w) nsec)] \<and>
         0 \<le> tv_nsec (timedwait_abstime (realtime w) nsec) \<and>
         tv_nsec (timedwait_abstime (realtime w) nsec) < NS_PER_SEC \<and>
         tv_sec (timedwait_abstime (realtime w) nsec) * NS_PER_SEC
             + tv_nsec (timedwait_abstime (realtime w) nsec)
           = tv_sec (realtime w) * NS_PER_SEC + tv_nsec (realtime w) + nsec"
  using timedwait_abstime_nonneg [OF assms] by (simp add: cond_var_timedwait_trace)

theorem timedwait_deadline_normalised_witness:
  "(0::int) \<le> 2 \<and> is_long 2 \<and> 0 \<le> tv_nsec (realtime idle_world) \<and>
   tv_nsec (realtime idle_world) < NS_PER_SEC \<and>
   0 \<le> tv_sec (realtime idle_world) \<and> tv_sec (realtime idle_world) < 2 ^ 62 \<and>
   realtime idle_world = \<lparr>tv_sec = 100, tv_nsec = 999999999\<rparr> \<and>
   trace (snd (cond_var_timedwait Debug (os_returning 0) 1 0 2 idle_world)) =
     [Clock_gettime_realtime, Pthread_cond_timedwait 1 2 \<lparr>tv_sec = 101, tv_nsec = 1\<rparr>]"
proof -
  have d: "(0::int) \<le> 2" "is_long 2" by (simp_all add: is_long_def)
  have c: "0 \<le> tv_nsec (realtime idle_world)" "tv_nsec (realtime idle_world) < NS_PER_SEC"
    "0 \<le> tv_sec (realtime idle_world)" "tv_sec (realtime idle_world) < 2 ^ 62"
    by (simp_all add: idle_world_def NS_PER_SEC_def)
  have now: "realtime idle_world = \<lparr>tv_sec = 100, tv_nsec = 999999999\<rparr>"
    "trace idle_world = []" "stack_top idle_world = 2"
    by (simp_all add: idle_world_def)
  from timedwait_deadline_normalised [OF d c, of Debug "os_returning 0" 1 0]
  have "trace (snd (cond_var_timedwait Debug (os_returning 0) 1 0 2 idle_world)) =
          trace idle_world @ [Clock_gettime_realtime,
                              Pthread_cond_timedwait 1 (stack_top idle_world)
                                (timedwait_abstime (realtime idle_world) 2)]"
    by (rule conjunct1)
  then show ?thesis
    using d c by (simp add: now timedwait_abstime_carry_example)
qed

text \<open>
  C10. For a negative duration (a \<^verbatim>\<open>long\<close>, with the clock between 0 and \<open>2^62\<close> seconds
  and its nanosecond field below one second) the carry step never runs: the deadline
  handed to the OS is the pair of unnormalised sums. Its seconds are at most those of the
  clock, and its nanosecond field is negative whenever the clock's nanosecond field is
  smaller than the magnitude of the duration's sub-second part.
\<close>

theorem timedwait_negative_duration_unnormalised:
  assumes "nsec < 0" and "is_long nsec"
    and "0 \<le> tv_nsec (realtime w)" and "tv_nsec (realtime w) < NS_PER_SEC"
    and "0 \<le> tv_sec (realtime w)" and "tv_sec (realtime w) < 2 ^ 62"
  shows "timedwait_abstime (realtime w) nsec =
           \<lparr>tv_sec = tv_sec (realtime w) + nsec sdiv NS_PER_SEC,
            tv_nsec = tv_nsec (realtime w) + nsec smod NS_PER_SEC\<rparr> \<and>
         nsec sdiv NS_PER_SEC = - ((- nsec) div NS_PER_SEC) \<and>
         nsec smod NS_PER_SEC = - ((- nsec) mod NS_PER_SEC) \<and>
         tv_sec (timedwait_abstime (realtime w) nsec) \<le> tv_sec (realtime w) \<and>
         (tv_nsec (timedwait_abstime (realtime w) nsec) < 0) =
           (tv_nsec (realtime w) < (- nsec) mod NS_PER_SEC) \<and>
         trace (snd (cond_var_timedwait b os this mtx nsec w)) =
           trace w @ [Clock_gettime_realtime,
                      Pthread_cond_timedwait this (stack_top w)
                        \<lparr>tv_sec = tv_sec (realtime w) + nsec sdiv NS_PER_SEC,
                         tv_nsec = tv_nsec (realtime w) + nsec smod NS_PER_SEC\<rparr>]"
proof -
  note pos = NS_PER_SEC_pos
  have raw: "timedwait_abstime (realtime w) nsec =
               \<lparr>tv_sec = tv_sec (realtime w) + nsec sdiv NS_PER_SEC,
                tv_nsec = tv_nsec (realtime w) + nsec smod NS_PER_SEC\<rparr>"
    using assms by (rule timedwait_abstime_negative)
  have q: "nsec sdiv NS_PER_SEC = - ((- nsec) div NS_PER_SEC)"
    using assms(1) pos by (rule sdiv_neg)
  have r: "nsec smod NS_PER_SEC = - ((- nsec) mod NS_PER_SEC)"
    using assms(1) pos by (rule smod_neg)
  have "0 \<le> (- nsec) div NS_PER_SEC"
    using assms(1) pos by (simp add: pos_imp_zdiv_nonneg_iff)
  then have less: "tv_sec (realtime w) + nsec sdiv NS_PER_SEC \<le> tv_sec (realtime w)"
    by (simp add: q)
  have sign: "(tv_nsec (realtime w) + nsec smod NS_PER_SEC < 0) =
              (tv_nsec (realtime w) < (- nsec) mod NS_PER_SEC)"
    by (simp add: r)
  show ?thesis
    unfolding cond_var_timedwait_trace raw
    using less sign q r by simp
qed

theorem timedwait_negative_duration_unnormalised_witness:
  "(- 1500000000::int) < 0 \<and> is_long (- 1500000000) \<and>
   0 \<le> tv_nsec (realtime early_world) \<and> tv_nsec (realtime early_world) < NS_PER_SEC \<and>
   0 \<le> tv_sec (realtime early_world) \<and> tv_sec (realtime early_world) < 2 ^ 62 \<and>
   realtime early_world = \<lparr>tv_sec = 100, tv_nsec = 5\<rparr> \<and>
   trace (snd (cond_var_timedwait Debug (os_returning EINVAL) 1 0 (- 1500000000) early_world)) =
     [Clock_gettime_realtime,
      Pthread_cond_timedwait 1 2 \<lparr>tv_sec = 99, tv_nsec = - 499999995\<rparr>]"
proof -
  have d: "(- 1500000000::int) < 0" "is_long (- 1500000000)"
    by (simp_all add: is_long_def)
  have c: "0 \<le> tv_nsec (realtime early_world)" "tv_nsec (realtime early_world) < NS_PER_SEC"
    "0 \<le> tv_sec (realtime early_world)" "tv_sec (realtime early_world) < 2 ^ 62"
    by (simp_all add: early_world_def idle_world_def NS_PER_SEC_def)
  have now: "realtime early_world = \<lparr>tv_sec = 100, tv_nsec = 5\<rparr>"
    "trace early_world = []" "stack_top early_world = 2"
    by (simp_all add: early_world_def idle_world_def)
  note raw = timedwait_negative_duration_unnormalised
    [OF d c, of Debug "os_returning EINVAL" 1 0]
  have "trace (snd (cond_var_timedwait Debug (os_returning EINVAL) 1 0 (- 1500000000) early_world)) =
          trace early_world @ [Clock_gettime_realtime,
             Pthread_cond_timedwait 1 (stack_top early_world)
               \<lparr>tv_sec = tv_sec (realtime early_world) + (- 1500000000) sdiv NS_PER_SEC,
                tv_nsec = tv_nsec (realtime early_world) + (- 1500000000) smod NS_PER_SEC\<rparr>]"
    using raw by blast
  then show ?thesis
    using d c
    by (simp add: now NS_PER_SEC_def signed_divide_int_def signed_modulo_int_def)
qed

section \<open>Results of the OS that the wrappers return\<close>

lemma mutex_trylock_eq:
  "mutex_trylock b os this w =
     (Inr (os (trace w) (Pthread_mutex_trylock this) \<noteq> EBUSY),
      w\<lparr>trace := trace w @ [Pthread_mutex_trylock this]\<rparr>)"
  by (simp add: mutex_trylock_def syscall_def done_with_def and_then_def ASSERT_EQ0_value_of)

lemma rwlock_tryrdlock_eq:
  "rwlock_tryrdlock b os this w =
     (Inr (os (trace w) (Pthread_rwlock_tryrdlock this) \<noteq> EBUSY),
      w\<lparr>trace := trace w @ [Pthread_rwlock_tryrdlock this]\<rparr>)"
  by (simp add: rwlock_tryrdlock_def syscall_def done_with_def and_then_def ASSERT_EQ0_value_of)

lemma rwlock_trywrlock_eq:
  "rwlock_trywrlock b os this w =
     (Inr (os (trace w) (Pthread_rwlock_trywrlock this) \<noteq> EBUSY),
      w\<lparr>trace := trace w @ [Pthread_rwlock_trywrlock this]\<rparr>)"
  by (simp add: rwlock_trywrlock_def syscall_def done_with_def and_then_def ASSERT_EQ0_value_of)

lemma spinlock_trylock_eq:
  "spinlock_trylock b os this w =
     (Inr (os (trace w) (Pthread_spin_trylock this) \<noteq> EBUSY),
      w\<lparr>trace := trace w @ [Pthread_spin_trylock this]\<rparr>)"
  by (simp add: spinlock_trylock_def syscall_def done_with_def and_then_def ASSERT_EQ0_value_of)

text \<open>
  C4. Each of \<^verbatim>\<open>mutex::trylock\<close>, \<^verbatim>\<open>rwlock::tryrdlock\<close>, \<^verbatim>\<open>rwlock::trywrlock\<close> and
  \<^verbatim>\<open>spinlock::trylock\<close> returns false exactly on \<open>EBUSY\<close>, true on zero, and treats any
  other result as a fatal fault, not a return value. The code does not: in a debug build,
  when the OS returns \<open>EINVAL\<close>, the check \<^verbatim>\<open>ASSERT_EQ0( retval )\<close> runs and passes, and
  each of the four operations returns true.
\<close>

theorem trylock_debug_other_error_returns_true:
  "EINVAL \<noteq> 0 \<and> EINVAL \<noteq> EBUSY \<and>
   os_returning EINVAL (trace idle_world) (Pthread_mutex_trylock 0) = EINVAL \<and>
   mutex_trylock Debug (os_returning EINVAL) 0 idle_world =
     (Inr True, idle_world\<lparr>trace := [Pthread_mutex_trylock 0]\<rparr>) \<and>
   rwlock_tryrdlock Debug (os_returning EINVAL) 0 idle_world =
     (Inr True, idle_world\<lparr>trace := [Pthread_rwlock_tryrdlock 0]\<rparr>) \<and>
   rwlock_trywrlock Debug (os_returning EINVAL) 0 idle_world =
     (Inr True, idle_world\<lparr>trace := [Pthread_rwlock_trywrlock 0]\<rparr>) \<and>
   spinlock_trylock Debug (os_returning EINVAL) 0 idle_world =
     (Inr True, idle_world\<lparr>trace := [Pthread_spin_trylock 0]\<rparr>)"
  by (simp add: mutex_trylock_def rwlock_tryrdlock_def rwlock_trywrlock_def
      spinlock_trylock_def syscall_def done_with_def and_then_def ASSERT_EQ0_def value_of_def
      cxx_assert_def pointer_to_bool_def string_literal_def os_returning_def idle_world_def
      EINVAL_def EBUSY_def)

lemma cond_var_timedwait_result:
  "fst (cond_var_timedwait b os this mtx nsec w) =
     Inr (if os (trace w @ [Clock_gettime_realtime])
               (Pthread_cond_timedwait this (stack_top w) (timedwait_abstime (realtime w) nsec))
             = ETIMEDOUT
          then ETIMEDOUT else 0)"
  by (simp add: cond_var_timedwait_def syscall_def local_mutex_def leave_scope_def
      done_with_def and_then_def ASSERT_EQ0_value_of Let_def split: prod.split)

text \<open>
  C5. \<^verbatim>\<open>timedwait\<close> returns \<open>ETIMEDOUT\<close> exactly when the OS wait timed out, zero exactly
  when the wait was signalled before the deadline, and treats any other result as a fatal
  fault, not a return value. The code does not: in a debug build, when
  \<^verbatim>\<open>pthread_cond_timedwait\<close> returns \<open>EINVAL\<close>, the check \<^verbatim>\<open>ASSERT_EQ0( retval )\<close> runs
  and passes, and \<^verbatim>\<open>timedwait\<close> returns zero.
\<close>

theorem timedwait_debug_other_error_returns_zero:
  "EINVAL \<noteq> 0 \<and> EINVAL \<noteq> ETIMEDOUT \<and>
   os_returning EINVAL [Clock_gettime_realtime]
     (Pthread_cond_timedwait 1 2 \<lparr>tv_sec = 101, tv_nsec = 1\<rparr>) = EINVAL \<and>
   trace (snd (cond_var_timedwait Debug (os_returning EINVAL) 1 0 2 idle_world)) =
     [Clock_gettime_realtime, Pthread_cond_timedwait 1 2 \<lparr>tv_sec = 101, tv_nsec = 1\<rparr>] \<and>
   fst (cond_var_timedwait Debug (os_returning EINVAL) 1 0 2 idle_world) = Inr 0"
  by (simp add: cond_var_timedwait_def syscall_def local_mutex_def leave_scope_def
      done_with_def and_then_def ASSERT_EQ0_def value_of_def cxx_assert_def
      pointer_to_bool_def string_literal_def Let_def os_returning_def idle_world_def
      EINVAL_def ETIMEDOUT_def timedwait_abstime_carry_example)

section \<open>The mutex a wait operates on\<close>

text \<open>
  The sibling operations of \<^verbatim>\<open>mutex\<close> hand the address of the member \<^verbatim>\<open>_handle\<close> to
  the OS; \<^verbatim>\<open>wait\<close> and \<^verbatim>\<open>timedwait\<close> hand over the address of their automatic
  variable \<^verbatim>\<open>nh\<close>, which is the first free stack address and so differs from the address
  of every object that exists when they are called.
\<close>

lemma mutex_lock_trace:
  "trace (snd (mutex_lock Debug os this w)) = trace w @ [Pthread_mutex_lock this]"
  by (simp add: mutex_lock_def ASSERT_EQ0_Debug syscall_def)

lemma cond_var_wait_Debug:
  "cond_var_wait Debug os this mtx w =
     (Inr (), w\<lparr>mutexes := (mutexes w)(stack_top w := mutexes w mtx),
                trace := trace w @ [Pthread_cond_wait this (stack_top w)]\<rparr>)"
  by (simp add: cond_var_wait_def local_mutex_def mutex_native_handle_def ASSERT_EQ0_Debug
      syscall_def leave_scope_def)

lemma cond_var_wait_Release:
  "cond_var_wait Release os this mtx w =
     (Inr (), w\<lparr>mutexes := (mutexes w)(stack_top w := mutexes w mtx)\<rparr>)"
  by (simp add: cond_var_wait_def local_mutex_def mutex_native_handle_def ASSERT_EQ0_Release
      leave_scope_def)

lemma cond_var_wait_not_on_callers_mutex:
  "mtx < stack_top w \<Longrightarrow>
   Pthread_cond_wait this mtx \<notin> set (trace (snd (cond_var_wait b os this mtx w))) - set (trace w)"
  by (cases b) (auto simp add: cond_var_wait_Debug cond_var_wait_Release)

text \<open>
  C1. \<^verbatim>\<open>wait(mutex)\<close> and the wait inside \<^verbatim>\<open>timedwait\<close> make the OS release and
  re-acquire the caller's mutex object, not a copy of its handle. The code does not: with
  the caller's mutex at address 0 (held by thread 7), a condition variable at address 1
  and the stack free from address 2, \<^verbatim>\<open>wait\<close> copies the handle to address 2 and
  passes that address to \<^verbatim>\<open>pthread_cond_wait\<close>, and \<^verbatim>\<open>timedwait\<close> does the same with
  \<^verbatim>\<open>pthread_cond_timedwait\<close>; \<^verbatim>\<open>mutex::lock\<close> passes address 0. With \<^verbatim>\<open>NDEBUG\<close>,
  \<^verbatim>\<open>wait\<close> issues no OS call at all.
\<close>

theorem cond_var_wait_passes_copy_of_handle:
  "mutex_native_handle 0 held_world = Mutex_locked_by 7 \<and>
   stack_top held_world = 2 \<and>
   cond_var_wait Debug (os_returning 0) 1 0 held_world =
     (Inr (), held_world\<lparr>mutexes := (mutexes held_world)(2 := Mutex_locked_by 7),
                         trace := [Pthread_cond_wait 1 2]\<rparr>) \<and>
   trace (snd (cond_var_timedwait Debug (os_returning 0) 1 0 2 held_world)) =
     [Clock_gettime_realtime, Pthread_cond_timedwait 1 2 \<lparr>tv_sec = 101, tv_nsec = 1\<rparr>] \<and>
   trace (snd (cond_var_timedwait Release (os_returning 0) 1 0 2 held_world)) =
     [Clock_gettime_realtime, Pthread_cond_timedwait 1 2 \<lparr>tv_sec = 101, tv_nsec = 1\<rparr>] \<and>
   trace (snd (cond_var_wait Release (os_returning 0) 1 0 held_world)) = [] \<and>
   trace (snd (mutex_lock Debug (os_returning 0) 0 held_world)) = [Pthread_mutex_lock 0]"
  by (simp add: cond_var_wait_Debug cond_var_wait_Release cond_var_timedwait_trace
      mutex_lock_trace mutex_native_handle_def held_world_def idle_world_def
      timedwait_abstime_carry_example)

end
